theory Spec2Isabelle
  imports Complex_Main "HOL-Library.List_Lexorder" "HOL-Library.Product_Lexorder"
begin

section \<open>Data model\<close>

text \<open>
  A Python \<open>str\<close> is a sequence of Unicode code points, compared lexicographically
  by code point (a proper prefix is smaller). The Korean literals of \<open>app.py\<close> are
  written here by their code points; the order on lists is the lexicographic one of
  \<open>List_Lexorder\<close>, which is the order \<open>sorted\<close> uses on strings.
\<close>

type_synonym pystr = "nat list"

text \<open>
  The generation volume column is a column of IEEE 754 binary64 numbers. A finite such
  number is represented by the real number it denotes; the rows of the file carry finite
  volumes. The result of a sum can also be an infinity, of either sign.
\<close>

datatype float64 = Finite real | Infinity bool

text \<open>A calendar date as read from the trade-date column (year, month, day).\<close>

record date =
  d_year :: int
  d_month :: int
  d_day :: int

text \<open>
  A timestamp of the data frame: a calendar date and an hour of the day. Every timestamp
  the loader builds is a whole number of hours after a midnight, so minutes and
  smaller units are always zero and are not kept.
\<close>

record datetime =
  ts_date :: date
  ts_hour :: int

text \<open>
  One row of the CSV file, with the columns the program reads: the trade date
  (column U+AC70 U+B798 U+C77C U+C790), the trade hour index (U+AC70 U+B798 U+C2DC U+AC04),
  the region (U+C9C0 U+C5ED), the fuel source (U+C5F0 U+B8CC U+C6D0) and the traded
  volume in MWh (U+C804 U+B825 U+AC70 U+B798 U+B7C9 followed by \<open>(MWh)\<close>).
\<close>

record raw_row =
  trade_date :: date
  trade_hour :: int
  region :: pystr
  fuel :: pystr
  volume :: real

text \<open>
  One row of the loaded data frame: the columns of the file and the four columns
  \<open>load_data\<close> adds: the timestamp (U+C2DC U+AC04), the month (U+C6D4), the day
  (U+C77C) and the hour (U+C2DC).
\<close>

record row = raw_row +
  timestamp :: datetime
  month :: int
  day :: int
  hour :: int

datatype error = ParserError | ValueError

section \<open>Calendar arithmetic of the timestamp library\<close>

definition leap_year :: "int \<Rightarrow> bool" where
  "leap_year y = (y mod 4 = 0 \<and> (y mod 100 \<noteq> 0 \<or> y mod 400 = 0))"

definition days_in_month :: "int \<Rightarrow> int \<Rightarrow> int" where
  "days_in_month y m =
     (if m = 2 then (if leap_year y then 29 else 28)
      else if m = 4 \<or> m = 6 \<or> m = 9 \<or> m = 11 then 30
      else 31)"

definition valid_date :: "date \<Rightarrow> bool" where
  "valid_date d =
     (1 \<le> d_month d \<and> d_month d \<le> 12 \<and> 1 \<le> d_day d
      \<and> d_day d \<le> days_in_month (d_year d) (d_month d))"

definition next_day :: "date \<Rightarrow> date" where
  "next_day d =
     (if d_day d < days_in_month (d_year d) (d_month d) then d\<lparr>d_day := d_day d + 1\<rparr>
      else if d_month d < 12 then d\<lparr>d_month := d_month d + 1, d_day := 1\<rparr>
      else \<lparr>d_year = d_year d + 1, d_month = 1, d_day = 1\<rparr>)"

definition prev_day :: "date \<Rightarrow> date" where
  "prev_day d =
     (if 1 < d_day d then d\<lparr>d_day := d_day d - 1\<rparr>
      else if 1 < d_month d
        then d\<lparr>d_month := d_month d - 1, d_day := days_in_month (d_year d) (d_month d - 1)\<rparr>
      else \<lparr>d_year = d_year d - 1, d_month = 12, d_day = 31\<rparr>)"

definition add_days :: "date \<Rightarrow> int \<Rightarrow> date" where
  "add_days d n = (if 0 \<le> n then (next_day ^^ nat n) d else (prev_day ^^ nat (- n)) d)"

text \<open>
  \<open>pd.to_datetime\<close> on a date: midnight of that date; a value that is not a
  calendar date raises a parse error.
\<close>

definition to_datetime :: "date \<Rightarrow> error + datetime" where
  "to_datetime d = (if valid_date d then Inr \<lparr>ts_date = d, ts_hour = 0\<rparr> else Inl ParserError)"

text \<open>
  Adding a \<open>pd.to_timedelta(n, unit="h")\<close> to a timestamp: whole days carry into
  the date (backwards for a negative total), the rest is the hour of the day.
\<close>

definition add_hours :: "datetime \<Rightarrow> int \<Rightarrow> datetime" where
  "add_hours t n =
     (let total = ts_hour t + n
      in \<lparr>ts_date = add_days (ts_date t) (total div 24), ts_hour = total mod 24\<rparr>)"

text \<open>The accessors \<open>.dt.month\<close>, \<open>.dt.day\<close> and \<open>.dt.hour\<close>.\<close>

definition dt_month :: "datetime \<Rightarrow> int" where
  "dt_month t = d_month (ts_date t)"

definition dt_day :: "datetime \<Rightarrow> int" where
  "dt_day t = d_day (ts_date t)"

definition dt_hour :: "datetime \<Rightarrow> int" where
  "dt_hour t = ts_hour t"

section \<open>Region names\<close>

text \<open>The keys and values of \<open>region_mapping\<close>, in the order of the source.\<close>

definition seoul_si :: pystr where "seoul_si = [0xC11C, 0xC6B8, 0xC2DC]"
definition seoul_teukbyeolsi :: pystr where
  "seoul_teukbyeolsi = [0xC11C, 0xC6B8, 0xD2B9, 0xBCC4, 0xC2DC]"
definition busan_si :: pystr where "busan_si = [0xBD80, 0xC0B0, 0xC2DC]"
definition busan_gwangyeoksi :: pystr where
  "busan_gwangyeoksi = [0xBD80, 0xC0B0, 0xAD11, 0xC5ED, 0xC2DC]"
definition daegu_si :: pystr where "daegu_si = [0xB300, 0xAD6C, 0xC2DC]"
definition daegu_gwangyeoksi :: pystr where
  "daegu_gwangyeoksi = [0xB300, 0xAD6C, 0xAD11, 0xC5ED, 0xC2DC]"
definition incheon_si :: pystr where "incheon_si = [0xC778, 0xCC9C, 0xC2DC]"
definition incheon_gwangyeoksi :: pystr where
  "incheon_gwangyeoksi = [0xC778, 0xCC9C, 0xAD11, 0xC5ED, 0xC2DC]"
definition gwangju_si :: pystr where "gwangju_si = [0xAD11, 0xC8FC, 0xC2DC]"
definition gwangju_gwangyeoksi :: pystr where
  "gwangju_gwangyeoksi = [0xAD11, 0xC8FC, 0xAD11, 0xC5ED, 0xC2DC]"
definition daejeon_si :: pystr where "daejeon_si = [0xB300, 0xC804, 0xC2DC]"
definition daejeon_gwangyeoksi :: pystr where
  "daejeon_gwangyeoksi = [0xB300, 0xC804, 0xAD11, 0xC5ED, 0xC2DC]"
definition ulsan_si :: pystr where "ulsan_si = [0xC6B8, 0xC0B0, 0xC2DC]"
definition ulsan_gwangyeoksi :: pystr where
  "ulsan_gwangyeoksi = [0xC6B8, 0xC0B0, 0xAD11, 0xC5ED, 0xC2DC]"
definition sejong_si :: pystr where "sejong_si = [0xC138, 0xC885, 0xC2DC]"
definition sejong_teukbyeoljachisi :: pystr where
  "sejong_teukbyeoljachisi = [0xC138, 0xC885, 0xD2B9, 0xBCC4, 0xC790, 0xCE58, 0xC2DC]"
definition jeju :: pystr where "jeju = [0xC81C, 0xC8FC]"
definition jeju_do :: pystr where "jeju_do = [0xC81C, 0xC8FC, 0xB3C4]"
definition jeju_teukbyeoljachido :: pystr where
  "jeju_teukbyeoljachido = [0xC81C, 0xC8FC, 0xD2B9, 0xBCC4, 0xC790, 0xCE58, 0xB3C4]"

text \<open>The sentinel region of line 31 (U+C721 U+C9C0, "mainland").\<close>

definition yukji :: pystr where "yukji = [0xC721, 0xC9C0]"

text \<open>The two fuel sources of the radio button (solar U+D0DC U+C591 U+AD11, wind U+D48D U+B825).\<close>

definition taeyanggwang :: pystr where "taeyanggwang = [0xD0DC, 0xC591, 0xAD11]"
definition pungnyeok :: pystr where "pungnyeok = [0xD48D, 0xB825]"

text \<open>The dictionary \<open>region_mapping\<close> (lines 11 to 22), as an association list in source order.\<close>

definition region_mapping :: "(pystr \<times> pystr) list" where
  "region_mapping =
     [(seoul_si, seoul_teukbyeolsi),
      (busan_si, busan_gwangyeoksi),
      (daegu_si, daegu_gwangyeoksi),
      (incheon_si, incheon_gwangyeoksi),
      (gwangju_si, gwangju_gwangyeoksi),
      (daejeon_si, daejeon_gwangyeoksi),
      (ulsan_si, ulsan_gwangyeoksi),
      (sejong_si, sejong_teukbyeoljachisi),
      (jeju, jeju_teukbyeoljachido),
      (jeju_do, jeju_teukbyeoljachido)]"

text \<open>
  \<open>Series.replace(region_mapping)\<close> on one cell: a value that is a key of the dictionary
  becomes the key's value, any other value stays.
\<close>

definition replace :: "(pystr \<times> pystr) list \<Rightarrow> pystr \<Rightarrow> pystr" where
  "replace mapping v = (case map_of mapping v of Some w \<Rightarrow> w | None \<Rightarrow> v)"

section \<open>The loader\<close>

text \<open>Lines 27 to 30 on one row: the timestamp and the three columns derived from it.\<close>

definition add_time_columns :: "raw_row \<Rightarrow> error + row" where
  "add_time_columns r =
     (case to_datetime (trade_date r) of
        Inl e \<Rightarrow> Inl e
      | Inr t0 \<Rightarrow>
          (let t = add_hours t0 (trade_hour r - 1)
           in Inr \<lparr>trade_date = trade_date r, trade_hour = trade_hour r, region = region r,
                   fuel = fuel r, volume = volume r,
                   timestamp = t, month = dt_month t, day = dt_day t, hour = dt_hour t\<rparr>))"

text \<open>The same on the whole column: one date that does not parse fails the load.\<close>

fun add_time_columns_all :: "raw_row list \<Rightarrow> error + row list" where
  "add_time_columns_all [] = Inr []"
| "add_time_columns_all (r # rs) =
     (case add_time_columns r of
        Inl e \<Rightarrow> Inl e
      | Inr r' \<Rightarrow>
          (case add_time_columns_all rs of
             Inl e \<Rightarrow> Inl e
           | Inr rs' \<Rightarrow> Inr (r' # rs')))"

text \<open>
  \<open>load_data\<close> (lines 25 to 33) on the parsed rows of the CSV file: the time columns,
  then the rows of the sentinel region are dropped (line 31), then the region names are
  replaced (line 32).
\<close>

definition load_data :: "raw_row list \<Rightarrow> error + row list" where
  "load_data csv =
     (case add_time_columns_all csv of
        Inl e \<Rightarrow> Inl e
      | Inr df \<Rightarrow>
          Inr (map (\<lambda>r. r\<lparr>region := replace region_mapping (region r)\<rparr>)
                 (filter (\<lambda>r. \<not> (region r \<in> set [yukji])) df)))"

section \<open>Filter selection\<close>

text \<open>
  A selection of a select box or of the radio button: the option U+D569 U+ACC4 ("sum",
  the aggregate choice) or a concrete value. The source keeps a selection as a string,
  \<open>str(m)\<close> for a month, day or hour \<open>m\<close>, and reads it back with \<open>int\<close>;
  \<open>Concrete m\<close> stands for the string \<open>str(m)\<close>, which is never the aggregate
  string and on which \<open>int\<close> returns \<open>m\<close>.
\<close>

datatype 'a selection = Aggregate | Concrete 'a

text \<open>
  \<open>st.selectbox\<close> and \<open>st.radio\<close>: the user picks one of the options, by its
  position; the widget starts on the first option and falls back to it when the pick
  does not fit the options. Every options list of the program starts with a fixed option,
  so it is never empty.
\<close>

definition selectbox :: "'a list \<Rightarrow> nat \<Rightarrow> 'a" where
  "selectbox options i = (if i < length options then options ! i else hd options)"

definition radio :: "'a list \<Rightarrow> nat \<Rightarrow> 'a" where
  "radio options i = (if i < length options then options ! i else hd options)"

text \<open>The user's picks in the four widgets of one run of the script.\<close>

record picks =
  month_pick :: nat
  day_pick :: nat
  hour_pick :: nat
  source_pick :: nat

text \<open>\<open>Series.unique()\<close>: the distinct values in order of first appearance.\<close>

definition unique :: "'a list \<Rightarrow> 'a list" where
  "unique xs = rev (remdups (rev xs))"

text \<open>Line 48: the sorted distinct regions of the loaded data frame.\<close>

definition all_regions :: "row list \<Rightarrow> pystr list" where
  "all_regions df = sort (unique (map region df))"

text \<open>The option lists of lines 53/54, 60/61 and 67/68.\<close>

definition month_options :: "row list \<Rightarrow> int selection list" where
  "month_options df = [Aggregate] @ map Concrete (sort (unique (map month df)))"

definition day_options :: "row list \<Rightarrow> int \<Rightarrow> int selection list" where
  "day_options df selected_month =
     [Aggregate] @
     map Concrete (sort (unique (map day (filter (\<lambda>r. month r = selected_month) df))))"

definition hour_options :: "row list \<Rightarrow> int \<Rightarrow> int \<Rightarrow> int selection list" where
  "hour_options df selected_month selected_day =
     [Aggregate] @
     map Concrete
       (sort (unique (map hour
          (filter (\<lambda>r. month r = selected_month \<and> day r = selected_day) df))))"

definition source_options :: "pystr selection list" where
  "source_options = [Concrete taeyanggwang, Concrete pungnyeok, Aggregate]"

text \<open>Lines 55 to 61: the day selection.\<close>

definition select_day :: "row list \<Rightarrow> int selection \<Rightarrow> nat \<Rightarrow> int selection" where
  "select_day df month_selected i =
     (case month_selected of
        Aggregate \<Rightarrow> Aggregate
      | Concrete selected_month \<Rightarrow> selectbox (day_options df selected_month) i)"

text \<open>Lines 62 to 68: the hour selection.\<close>

definition select_hour ::
  "row list \<Rightarrow> int selection \<Rightarrow> int selection \<Rightarrow> nat \<Rightarrow> int selection" where
  "select_hour df month_selected day_selected i =
     (case month_selected of
        Aggregate \<Rightarrow> Aggregate
      | Concrete selected_month \<Rightarrow>
          (case day_selected of
             Aggregate \<Rightarrow> Aggregate
           | Concrete selected_day \<Rightarrow> selectbox (hour_options df selected_month selected_day) i))"

text \<open>The four selections of one run of the script.\<close>

record selections =
  month_selected :: "int selection"
  day_selected :: "int selection"
  hour_selected :: "int selection"
  source_selected :: "pystr selection"

text \<open>Lines 50 to 70: the four widgets, in the order of the script.\<close>

definition select_filters :: "row list \<Rightarrow> picks \<Rightarrow> selections" where
  "select_filters df p =
     (let month_sel = selectbox (month_options df) (month_pick p);
          day_sel = select_day df month_sel (day_pick p);
          hour_sel = select_hour df month_sel day_sel (hour_pick p);
          source_sel = radio source_options (source_pick p)
      in \<lparr>month_selected = month_sel, day_selected = day_sel, hour_selected = hour_sel,
          source_selected = source_sel\<rparr>)"

section \<open>Floating-point addition\<close>

text \<open>The number of binary digits of a natural number.\<close>

fun bitlen :: "nat \<Rightarrow> nat" where
  "bitlen n = (if n = 0 then 0 else Suc (bitlen (n div 2)))"

declare bitlen.simps [simp del]

definition pow2 :: "int \<Rightarrow> real" where
  "pow2 e = (if 0 \<le> e then 2 ^ nat e else 1 / 2 ^ nat (- e))"

text \<open>For a positive number \<open>a\<close>, the exponent \<open>e\<close> with \<open>2 ^ e \<le> a < 2 ^ (e + 1)\<close>.\<close>

definition ilog2 :: "real \<Rightarrow> int" where
  "ilog2 a =
     (if 1 \<le> a then int (bitlen (nat \<lfloor>a\<rfloor>)) - 1
      else (let e = - int (bitlen (nat \<lfloor>1 / a\<rfloor>))
            in if pow2 (e + 1) \<le> a then e + 1 else e))"

text \<open>Rounding to the nearest integer, a tie to the even one.\<close>

definition round_even :: "real \<Rightarrow> int" where
  "round_even x =
     (let f = \<lfloor>x\<rfloor>; d = x - of_int f
      in if d < 1 / 2 then f else if 1 / 2 < d then f + 1 else if even f then f else f + 1)"

text \<open>
  Rounding a real number to binary64, to nearest and ties to even: 53 significant binary
  digits, no digit below \<open>2 ^ (- 1074)\<close>, and an infinity when the rounded magnitude
  reaches \<open>2 ^ 1024\<close>.
\<close>

definition round_float64 :: "real \<Rightarrow> float64" where
  "round_float64 q =
     (if q = 0 then Finite 0
      else
        (let e = max (ilog2 \<bar>q\<bar> - 52) (- 1074);
             r = of_int (round_even (q / pow2 e)) * pow2 e
         in if 2 ^ 1024 \<le> \<bar>r\<bar> then Infinity (q < 0) else Finite r))"

text \<open>Adding a finite number to a running sum.\<close>

definition add_float64 :: "float64 \<Rightarrow> real \<Rightarrow> float64" where
  "add_float64 acc x =
     (case acc of Finite a \<Rightarrow> round_float64 (a + x) | Infinity s \<Rightarrow> Infinity s)"

text \<open>
  The sum of a column of finite numbers: floating-point additions in row order, from
  0.0. The sum of no number is 0.0.
\<close>

definition sum_float64 :: "real list \<Rightarrow> float64" where
  "sum_float64 xs = foldl add_float64 (Finite 0) xs"

section \<open>Filtering and aggregation\<close>

text \<open>Lines 73 to 82: the four filters, each skipped for the aggregate selection.\<close>

definition filter_rows ::
  "int selection \<Rightarrow> int selection \<Rightarrow> int selection \<Rightarrow> pystr selection \<Rightarrow> row list \<Rightarrow> row list"
  where
  "filter_rows month_sel day_sel hour_sel source_sel df =
     (let dff = df;
          dff = (case month_sel of
                   Aggregate \<Rightarrow> dff | Concrete m \<Rightarrow> filter (\<lambda>r. month r = m) dff);
          dff = (case day_sel of
                   Aggregate \<Rightarrow> dff | Concrete d \<Rightarrow> filter (\<lambda>r. day r = d) dff);
          dff = (case hour_sel of
                   Aggregate \<Rightarrow> dff | Concrete h \<Rightarrow> filter (\<lambda>r. hour r = h) dff);
          dff = (case source_sel of
                   Aggregate \<Rightarrow> dff | Concrete s \<Rightarrow> filter (\<lambda>r. fuel r = s) dff)
      in dff)"

text \<open>
  \<open>dff.groupby(key)[volume].sum().reset_index()\<close>: one row per distinct key of the
  frame, in sorted key order, with the floating-point sum of the volumes of the rows of
  that key, in row order. An empty frame gives no row.
\<close>

definition groupby_sum :: "(row \<Rightarrow> 'k::linorder) \<Rightarrow> row list \<Rightarrow> ('k \<times> float64) list" where
  "groupby_sum key dff =
     map (\<lambda>k. (k, sum_float64 (map volume (filter (\<lambda>r. key r = k) dff))))
       (sort (unique (map key dff)))"

text \<open>
  \<open>pd.merge(all_regions, df_map, on=region, how="left")\<close>: for every row of the left
  frame, in its order, one row per row of the right frame with the same region, and one
  row with a missing volume when there is none. The left frame is built from a list of
  regions (line 48); built from the empty list, its region column is a float column and
  not a string column, and the merge on it with the region column of the right frame
  raises \<open>ValueError\<close>.
\<close>

definition merge_left ::
  "pystr list \<Rightarrow> (pystr \<times> float64) list \<Rightarrow> error + (pystr \<times> float64 option) list" where
  "merge_left left_regions right_rows =
     (if left_regions = [] then Inl ValueError
      else Inr (concat (map (\<lambda>g.
        (let ms = filter (\<lambda>(g', v). g' = g) right_rows
         in if ms = [] then [(g, None)] else map (\<lambda>(g', v). (g, Some v)) ms))
       left_regions)))"

text \<open>
  \<open>pd.merge(all_regions, df_anim, on=region, how="right")\<close>: for every row of the
  right frame, in its order, one row per row of the left frame with the same region, and
  one row when there is none. The left frame has no column but the region, so the hour
  and the volume of a merged row are always those of the right row. An empty left frame
  raises as in the left merge.
\<close>

definition merge_right ::
  "pystr list \<Rightarrow> ((int \<times> pystr) \<times> float64) list
     \<Rightarrow> error + (pystr \<times> int option \<times> float64 option) list" where
  "merge_right left_regions right_rows =
     (if left_regions = [] then Inl ValueError
      else Inr (concat (map (\<lambda>((h, g), v).
        (let ms = filter (\<lambda>g'. g' = g) left_regions
         in if ms = [] then [(g, Some h, Some v)] else map (\<lambda>g'. (g, Some h, Some v)) ms))
       right_rows)))"

text \<open>\<open>.fillna(0)\<close> on a cell: a missing cell becomes the zero of its column.\<close>

definition fillna :: "'a \<Rightarrow> 'a option \<Rightarrow> 'a" where
  "fillna zero c = (case c of None \<Rightarrow> zero | Some x \<Rightarrow> x)"

text \<open>Lines 85 and 86: the frame of the heat map, rows of region and volume.\<close>

definition heatmap :: "pystr list \<Rightarrow> row list \<Rightarrow> error + (pystr \<times> float64) list" where
  "heatmap regions dff =
     (let df_map = groupby_sum region dff
      in case merge_left regions df_map of
           Inl e \<Rightarrow> Inl e
         | Inr merged \<Rightarrow> Inr (map (\<lambda>(g, v). (g, fillna (Finite 0) v)) merged))"

text \<open>Lines 117 and 118: the frame of the animation, rows of region, hour and volume.\<close>

definition animation :: "pystr list \<Rightarrow> row list \<Rightarrow> error + (pystr \<times> int \<times> float64) list" where
  "animation regions dff =
     (let df_anim = groupby_sum (\<lambda>r. (hour r, region r)) dff
      in case merge_right regions df_anim of
           Inl e \<Rightarrow> Inl e
         | Inr merged \<Rightarrow> Inr (map (\<lambda>(g, h, v). (g, fillna 0 h, fillna (Finite 0) v)) merged))"

text \<open>
  What one run of \<open>main\<close> shows when it ends without an exception: the four
  selections, the frame of the heat map and, when it is drawn, the frame of the
  animation. The line chart of lines 103 to 111 is not part of the model.
\<close>

record dashboard = selections +
  df_map :: "(pystr \<times> float64) list"
  df_anim :: "(pystr \<times> int \<times> float64) list option"

text \<open>
  Lines 47 to 132 of \<open>main\<close>, on the loaded data frame: the region list, the
  selections, the filters, the heat map, and the animation when the hour selection is
  the aggregate one. An exception of a merge ends the run.
\<close>

definition main_body :: "row list \<Rightarrow> picks \<Rightarrow> error + dashboard" where
  "main_body df p =
     (let regions = all_regions df;
          sel = select_filters df p;
          dff = filter_rows (month_selected sel) (day_selected sel) (hour_selected sel)
                  (source_selected sel) df
      in case heatmap regions dff of
           Inl e \<Rightarrow> Inl e
         | Inr heat \<Rightarrow>
             (if hour_selected sel = Aggregate
              then (case animation regions dff of
                      Inl e \<Rightarrow> Inl e
                    | Inr anim \<Rightarrow>
                        Inr \<lparr>month_selected = month_selected sel,
                             day_selected = day_selected sel,
                             hour_selected = hour_selected sel,
                             source_selected = source_selected sel,
                             df_map = heat, df_anim = Some anim\<rparr>)
              else Inr \<lparr>month_selected = month_selected sel,
                        day_selected = day_selected sel,
                        hour_selected = hour_selected sel,
                        source_selected = source_selected sel,
                        df_map = heat, df_anim = None\<rparr>))"

text \<open>\<open>main\<close>: load the file, then the rest; a failed load ends the run.\<close>

definition main :: "raw_row list \<Rightarrow> picks \<Rightarrow> error + dashboard" where
  "main csv p = (case load_data csv of Inl e \<Rightarrow> Inl e | Inr df \<Rightarrow> main_body df p)"

section \<open>Example inputs\<close>

text \<open>
  A small file: a short-form and a full-form row of Seoul on 1 January, hour index 1,
  both solar; a row of the sentinel region; and a wind row of Jeju on 29 February, hour
  index 24. Below it the data frame \<open>load_data\<close> makes of it, and three sets of
  picks in the widgets. A second file has three solar rows on 1 January, hour index 1:
  Jeju with the binary64 number nearest to 0.1, and Seoul with the numbers nearest to
  0.1 and to 0.4.
\<close>

definition example_csv :: "raw_row list" where
  "example_csv =
     [\<lparr>trade_date = \<lparr>d_year = 2024, d_month = 1, d_day = 1\<rparr>, trade_hour = 1,
        region = seoul_si, fuel = taeyanggwang, volume = 10\<rparr>,
      \<lparr>trade_date = \<lparr>d_year = 2024, d_month = 1, d_day = 1\<rparr>, trade_hour = 1,
        region = seoul_teukbyeolsi, fuel = taeyanggwang, volume = 5\<rparr>,
      \<lparr>trade_date = \<lparr>d_year = 2024, d_month = 1, d_day = 1\<rparr>, trade_hour = 1,
        region = yukji, fuel = taeyanggwang, volume = 100\<rparr>,
      \<lparr>trade_date = \<lparr>d_year = 2024, d_month = 2, d_day = 29\<rparr>, trade_hour = 24,
        region = jeju, fuel = pungnyeok, volume = 7\<rparr>]"

definition example_df :: "row list" where
  "example_df =
     [\<lparr>trade_date = \<lparr>d_year = 2024, d_month = 1, d_day = 1\<rparr>, trade_hour = 1,
        region = seoul_teukbyeolsi, fuel = taeyanggwang, volume = 10,
        timestamp = \<lparr>ts_date = \<lparr>d_year = 2024, d_month = 1, d_day = 1\<rparr>, ts_hour = 0\<rparr>,
        month = 1, day = 1, hour = 0\<rparr>,
      \<lparr>trade_date = \<lparr>d_year = 2024, d_month = 1, d_day = 1\<rparr>, trade_hour = 1,
        region = seoul_teukbyeolsi, fuel = taeyanggwang, volume = 5,
        timestamp = \<lparr>ts_date = \<lparr>d_year = 2024, d_month = 1, d_day = 1\<rparr>, ts_hour = 0\<rparr>,
        month = 1, day = 1, hour = 0\<rparr>,
      \<lparr>trade_date = \<lparr>d_year = 2024, d_month = 2, d_day = 29\<rparr>, trade_hour = 24,
        region = jeju_teukbyeoljachido, fuel = pungnyeok, volume = 7,
        timestamp = \<lparr>ts_date = \<lparr>d_year = 2024, d_month = 2, d_day = 29\<rparr>, ts_hour = 23\<rparr>,
        month = 2, day = 29, hour = 23\<rparr>]"

definition example_picks :: picks where
  "example_picks = \<lparr>month_pick = 1, day_pick = 1, hour_pick = 0, source_pick = 0\<rparr>"


definition empty_picks :: picks where
  "empty_picks = \<lparr>month_pick = 2, day_pick = 1, hour_pick = 0, source_pick = 0\<rparr>"



section \<open>Basic facts\<close>

lemmas region_names =
  seoul_si_def seoul_teukbyeolsi_def busan_si_def busan_gwangyeoksi_def daegu_si_def
  daegu_gwangyeoksi_def incheon_si_def incheon_gwangyeoksi_def gwangju_si_def
  gwangju_gwangyeoksi_def daejeon_si_def daejeon_gwangyeoksi_def ulsan_si_def
  ulsan_gwangyeoksi_def sejong_si_def sejong_teukbyeoljachisi_def jeju_def jeju_do_def
  jeju_teukbyeoljachido_def yukji_def taeyanggwang_def pungnyeok_def

lemma set_unique [simp]: "set (unique xs) = set xs"
  by (simp add: unique_def)

lemma distinct_unique [simp]: "distinct (unique xs)"
  by (simp add: unique_def)

subsection \<open>The region mapping\<close>

lemma region_mapping_keys:
  "map fst region_mapping =
     [seoul_si, busan_si, daegu_si, incheon_si, gwangju_si, daejeon_si, ulsan_si, sejong_si,
      jeju, jeju_do]"
  by (simp add: region_mapping_def)

lemma region_mapping_values:
  "map snd region_mapping =
     [seoul_teukbyeolsi, busan_gwangyeoksi, daegu_gwangyeoksi, incheon_gwangyeoksi,
      gwangju_gwangyeoksi, daejeon_gwangyeoksi, ulsan_gwangyeoksi, sejong_teukbyeoljachisi,
      jeju_teukbyeoljachido, jeju_teukbyeoljachido]"
  by (simp add: region_mapping_def)

lemma values_not_keys: "set (map snd region_mapping) \<inter> set (map fst region_mapping) = {}"
  unfolding region_mapping_keys region_mapping_values by (simp add: region_names)

lemma yukji_not_value: "yukji \<notin> set (map snd region_mapping)"
  unfolding region_mapping_values by (simp add: region_names)

lemma replace_cases:
  "replace m v = v \<and> v \<notin> set (map fst m) \<or> replace m v \<in> set (map snd m)"
proof (cases "map_of m v")
  case None
  then have "v \<notin> set (map fst m)" by (simp add: map_of_eq_None_iff)
  with None show ?thesis by (simp add: replace_def)
next
  case (Some w)
  then have "(v, w) \<in> set m" by (rule map_of_SomeD)
  then have "w \<in> set (map snd m)" by force
  with Some show ?thesis by (simp add: replace_def)
qed

lemma replace_not_key: "replace region_mapping v \<notin> set (map fst region_mapping)"
proof -
  consider "replace region_mapping v = v" "v \<notin> set (map fst region_mapping)"
    | "replace region_mapping v \<in> set (map snd region_mapping)"
    using replace_cases [of region_mapping v] by blast
  then show ?thesis
  proof cases
    case 1
    then show ?thesis by simp
  next
    case 2
    with values_not_keys show ?thesis by blast
  qed
qed

lemma replace_fixed: "v \<notin> set (map fst m) \<Longrightarrow> replace m v = v"
  by (simp add: replace_def map_of_eq_None_iff [THEN iffD2])

lemma replace_idem: "replace region_mapping (replace region_mapping v) = replace region_mapping v"
  by (rule replace_fixed) (rule replace_not_key)

lemma distinct_keys: "distinct (map fst region_mapping)"
  unfolding region_mapping_keys by (simp add: region_names)

subsection \<open>The rows of a successful load\<close>

lemmas loader_defs =
  load_data_def add_time_columns_def to_datetime_def valid_date_def days_in_month_def
  leap_year_def add_hours_def add_days_def dt_month_def dt_day_def dt_hour_def Let_def
  replace_def region_mapping_def

lemma load_example: "load_data example_csv = Inr example_df"
  by (simp add: example_csv_def example_df_def loader_defs region_names)

lemma add_time_columns_Inr:
  assumes "add_time_columns r0 = Inr r1"
  shows "valid_date (trade_date r0) \<and> trade_date r1 = trade_date r0
    \<and> trade_hour r1 = trade_hour r0 \<and> region r1 = region r0 \<and> fuel r1 = fuel r0
    \<and> volume r1 = volume r0
    \<and> timestamp r1 = add_hours \<lparr>ts_date = trade_date r0, ts_hour = 0\<rparr> (trade_hour r0 - 1)
    \<and> month r1 = dt_month (timestamp r1) \<and> day r1 = dt_day (timestamp r1)
    \<and> hour r1 = dt_hour (timestamp r1)"
  using assms by (auto simp: add_time_columns_def to_datetime_def Let_def split: if_splits)

lemma add_time_columns_all_rows:
  "add_time_columns_all csv = Inr df \<Longrightarrow> r \<in> set df
    \<Longrightarrow> \<exists>r0. r0 \<in> set csv \<and> add_time_columns r0 = Inr r"
proof (induction csv arbitrary: df)
  case Nil
  then show ?case by simp
next
  case (Cons a csv)
  then show ?case by (fastforce split: sum.splits)
qed

lemma load_data_rows:
  assumes "load_data csv = Inr df" and "r \<in> set df"
  shows "\<exists>r0 r1. r0 \<in> set csv \<and> add_time_columns r0 = Inr r1 \<and> region r1 \<noteq> yukji
    \<and> r = r1\<lparr>region := replace region_mapping (region r1)\<rparr>"
proof -
  from assms(1) obtain df0 where all: "add_time_columns_all csv = Inr df0"
    and df: "df = map (\<lambda>r. r\<lparr>region := replace region_mapping (region r)\<rparr>)
                 (filter (\<lambda>r. \<not> (region r \<in> set [yukji])) df0)"
    by (auto simp: load_data_def split: sum.splits)
  from assms(2) df obtain r1 where r1: "r1 \<in> set df0" "region r1 \<noteq> yukji"
    "r = r1\<lparr>region := replace region_mapping (region r1)\<rparr>"
    by auto
  from add_time_columns_all_rows [OF all r1(1)] r1 show ?thesis by blast
qed

lemma add_hours_same_day:
  assumes "0 \<le> n" and "n < 24"
  shows "add_hours \<lparr>ts_date = d, ts_hour = 0\<rparr> n = \<lparr>ts_date = d, ts_hour = n\<rparr>"
  using assms by (simp add: add_hours_def add_days_def)

lemma load_data_total:
  assumes "list_all (\<lambda>r. valid_date (trade_date r)) csv"
  shows "\<exists>df. load_data csv = Inr df"
proof -
  from assms have "\<exists>df. add_time_columns_all csv = Inr df"
    by (induction csv) (auto simp: add_time_columns_def to_datetime_def Let_def)
  then show ?thesis by (auto simp: load_data_def)
qed

subsection \<open>Floating-point sums\<close>

lemma bitlen_0: "bitlen 0 = 0"
  by (simp add: bitlen.simps)

lemma bitlen_pos: "n \<noteq> 0 \<Longrightarrow> bitlen n = Suc (bitlen (n div 2))"
  by (subst bitlen.simps) simp

lemmas float_defs =
  sum_float64_def add_float64_def round_float64_def round_even_def pow2_def ilog2_def
  bitlen_0 bitlen_pos Let_def

lemma sum_float64_Nil: "sum_float64 [] = Finite 0"
  by (simp add: sum_float64_def)

lemma sum_float64_10_5: "sum_float64 [10, 5] = Finite 15"
  by (simp add: float_defs)

lemma sum_float64_7: "sum_float64 [7] = Finite 7"
  by (simp add: float_defs)

lemma sum_float64_tenth:
  "sum_float64 [3602879701896397 / 36028797018963968]
     = Finite (3602879701896397 / 36028797018963968)"
  by (simp add: float_defs)

lemma sum_float64_tenth_four_tenths:
  "sum_float64 [3602879701896397 / 36028797018963968, 3602879701896397 / 9007199254740992]
     = Finite (1 / 2)"
  by (simp add: float_defs)



subsection \<open>Grouping and merging\<close>

lemma filter_key_map:
  "distinct ks \<Longrightarrow>
   filter (\<lambda>(k', v). k' = k) (map (\<lambda>k. (k, f k)) ks) = (if k \<in> set ks then [(k, f k)] else [])"
  by (induction ks) auto

lemma filter_eq_distinct:
  "distinct xs \<Longrightarrow> filter (\<lambda>y. y = x) xs = (if x \<in> set xs then [x] else [])"
  by (induction xs) auto

lemma concat_map_singleton: "concat (map (\<lambda>x. [f x]) xs) = map f xs"
  by (induction xs) simp_all

lemma groupby_sum_keys: "map fst (groupby_sum key dff) = sort (unique (map key dff))"
  by (simp add: groupby_sum_def comp_def)

lemma sum_float64_filter_none:
  "k \<notin> key ` set dff \<Longrightarrow> sum_float64 (map volume (filter (\<lambda>r. key r = k) dff)) = Finite 0"
proof -
  assume "k \<notin> key ` set dff"
  then have "filter (\<lambda>r. key r = k) dff = []" by (auto simp: filter_empty_conv)
  then show ?thesis by (simp add: sum_float64_Nil)
qed

lemma merge_left_row:
  "(let ms = filter (\<lambda>(g', v). g' = g) (groupby_sum region dff)
    in if ms = [] then [(g, None)] else map (\<lambda>(g', v). (g, Some v)) ms) =
   [(g, if g \<in> region ` set dff
        then Some (sum_float64 (map volume (filter (\<lambda>r. region r = g) dff)))
        else None)]"
proof -
  have d: "distinct (sort (unique (map region dff)))" by simp
  show ?thesis
    unfolding groupby_sum_def by (simp add: filter_key_map [OF d] Let_def)
qed

lemma merge_left_groupby:
  assumes "regions \<noteq> []"
  shows "merge_left regions (groupby_sum region dff) =
     Inr (map (\<lambda>g. (g, if g \<in> region ` set dff
                   then Some (sum_float64 (map volume (filter (\<lambda>r. region r = g) dff)))
                   else None)) regions)"
  using assms unfolding merge_left_def merge_left_row by (simp add: concat_map_singleton)

lemma heatmap_rows:
  assumes "regions \<noteq> []"
  shows "heatmap regions dff =
     Inr (map (\<lambda>g. (g, sum_float64 (map volume (filter (\<lambda>r. region r = g) dff)))) regions)"
  unfolding heatmap_def Let_def merge_left_groupby [OF assms]
  by (simp add: fillna_def sum_float64_filter_none)

lemma heatmap_no_regions: "heatmap [] dff = Inl ValueError"
  by (simp add: heatmap_def merge_left_def)


lemma filter_rows_eq:
  "filter_rows ms ds hs ss df =
     filter (\<lambda>r. (ms = Aggregate \<or> ms = Concrete (month r))
                \<and> (ds = Aggregate \<or> ds = Concrete (day r))
                \<and> (hs = Aggregate \<or> hs = Concrete (hour r))
                \<and> (ss = Aggregate \<or> ss = Concrete (fuel r))) df"
  by (cases ms; cases ds; cases hs; cases ss) (auto simp: filter_rows_def intro: filter_cong)

lemma filter_rows_subset: "set (filter_rows ms ds hs ss df) \<subseteq> set df"
  by (simp add: filter_rows_eq)

lemma all_regions_props:
  "distinct (all_regions df) \<and> sorted (all_regions df) \<and> set (all_regions df) = region ` set df"
  by (simp add: all_regions_def)

lemma all_regions_nonempty: "df \<noteq> [] \<Longrightarrow> all_regions df \<noteq> []"
proof -
  assume "df \<noteq> []"
  then have "region ` set df \<noteq> {}" by simp
  then have "set (all_regions df) \<noteq> {}" using all_regions_props [of df] by simp
  then show ?thesis by auto
qed

lemma filtered_regions: "region ` set (filter_rows ms ds hs ss df) \<subseteq> set (all_regions df)"
  using filter_rows_subset [of ms ds hs ss df] all_regions_props [of df] by auto

lemma merge_right_groupby:
  assumes "distinct regions" and "region ` set dff \<subseteq> set regions" and "regions \<noteq> []"
  shows "merge_right regions (groupby_sum (\<lambda>r. (hour r, region r)) dff) =
     Inr (map (\<lambda>((h, g), v). (g, Some h, Some v)) (groupby_sum (\<lambda>r. (hour r, region r)) dff))"
proof -
  have "\<And>h g v. ((h, g), v) \<in> set (groupby_sum (\<lambda>r. (hour r, region r)) dff)
      \<Longrightarrow> g \<in> set regions"
    using assms(2) by (auto simp: groupby_sum_def)
  then have "concat (map (\<lambda>((h, g), v).
        (let ms = filter (\<lambda>g'. g' = g) regions
         in if ms = [] then [(g, Some h, Some v)] else map (\<lambda>g'. (g, Some h, Some v)) ms))
       (groupby_sum (\<lambda>r. (hour r, region r)) dff)) =
    concat (map (\<lambda>((h, g), v). [(g, Some h, Some v)]) (groupby_sum (\<lambda>r. (hour r, region r)) dff))"
    by (intro arg_cong [where f = concat] map_cong refl)
       (auto simp: filter_eq_distinct [OF assms(1)] Let_def)
  also have "\<dots> = map (\<lambda>((h, g), v). (g, Some h, Some v)) (groupby_sum (\<lambda>r. (hour r, region r)) dff)"
    by (induction "groupby_sum (\<lambda>r. (hour r, region r)) dff") (auto simp: case_prod_beta)
  finally show ?thesis using assms(3) by (simp add: merge_right_def)
qed

lemma animation_rows:
  assumes "distinct regions" and "region ` set dff \<subseteq> set regions" and "regions \<noteq> []"
  shows "animation regions dff =
     Inr (map (\<lambda>(h, g). (g, h, sum_float64 (map volume
                (filter (\<lambda>r. hour r = h \<and> region r = g) dff))))
       (sort (unique (map (\<lambda>r. (hour r, region r)) dff))))"
  unfolding animation_def Let_def merge_right_groupby [OF assms]
  by (simp add: groupby_sum_def fillna_def comp_def case_prod_beta)

subsection \<open>The run of the script\<close>

lemma select_filters_cascade:
  "day_selected (select_filters df p) =
     select_day df (month_selected (select_filters df p)) (day_pick p)
   \<and> hour_selected (select_filters df p) =
       select_hour df (month_selected (select_filters df p))
         (day_selected (select_filters df p)) (hour_pick p)"
  by (simp add: select_filters_def Let_def)

lemma main_body_Inr:
  assumes "main_body df p = Inr d"
  shows "month_selected d = month_selected (select_filters df p)"
    and "day_selected d = day_selected (select_filters df p)"
    and "hour_selected d = hour_selected (select_filters df p)"
    and "source_selected d = source_selected (select_filters df p)"
    and "heatmap (all_regions df)
           (filter_rows (month_selected d) (day_selected d) (hour_selected d)
              (source_selected d) df) = Inr (df_map d)"
    and "(if hour_selected d = Aggregate
          then map_sum id Some (animation (all_regions df)
                 (filter_rows (month_selected d) (day_selected d) (hour_selected d)
                    (source_selected d) df))
          else Inr None) = Inr (df_anim d)"
  using assms
  by (auto simp: main_body_def Let_def split: sum.splits if_splits)

lemma main_body_total:
  assumes "df \<noteq> []"
  shows "\<exists>d. main_body df p = Inr d"
proof -
  note n = all_regions_nonempty [OF assms]
  have d: "distinct (all_regions df)" using all_regions_props by blast
  show ?thesis
    unfolding main_body_def Let_def
    by (simp add: heatmap_rows [OF n] animation_rows [OF d filtered_regions n])
qed

lemma main_body_no_rows: "main_body [] p = Inl ValueError"
  by (simp add: main_body_def Let_def all_regions_def unique_def heatmap_no_regions)

subsection \<open>The examples, evaluated\<close>

lemmas main_defs =
  main_body_def select_filters_def all_regions_def unique_def selectbox_def radio_def
  month_options_def day_options_def hour_options_def source_options_def select_day_def
  select_hour_def filter_rows_def groupby_sum_def merge_left_def merge_right_def fillna_def
  heatmap_def animation_def Let_def sum_float64_Nil sum_float64_10_5 sum_float64_7
  sum_float64_tenth sum_float64_tenth_four_tenths


lemma main_body_example:
  "main_body example_df example_picks =
     Inr \<lparr>month_selected = Concrete 1, day_selected = Concrete 1, hour_selected = Aggregate,
          source_selected = Concrete taeyanggwang,
          df_map = [(seoul_teukbyeolsi, Finite 15), (jeju_teukbyeoljachido, Finite 0)],
          df_anim = Some [(seoul_teukbyeolsi, 0, Finite 15)]\<rparr>"
  by (simp add: main_defs example_df_def example_picks_def region_names)


lemma main_body_empty:
  "main_body example_df empty_picks =
     Inr \<lparr>month_selected = Concrete 2, day_selected = Concrete 29, hour_selected = Aggregate,
          source_selected = Concrete taeyanggwang,
          df_map = [(seoul_teukbyeolsi, Finite 0), (jeju_teukbyeoljachido, Finite 0)],
          df_anim = Some []\<rparr>"
  by (simp add: main_defs example_df_def empty_picks_def region_names)







subsection \<open>Regions of the loaded rows\<close>

lemma add_time_columns_all_regions:
  "add_time_columns_all csv = Inr df0 \<Longrightarrow>
   map (\<lambda>r. f (region r)) (filter (\<lambda>r. region r \<noteq> yukji) df0)
     = map (\<lambda>r. f (region r)) (filter (\<lambda>r. region r \<noteq> yukji) csv)"
proof (induction csv arbitrary: df0)
  case Nil
  then show ?case by simp
next
  case (Cons r0 csv)
  from Cons.prems obtain r1 rs where a: "add_time_columns r0 = Inr r1"
    and b: "add_time_columns_all csv = Inr rs" and c: "df0 = r1 # rs"
    by (auto split: sum.splits)
  from add_time_columns_Inr [OF a] have "region r1 = region r0" by simp
  with Cons.IH [OF b] c show ?case by simp
qed

lemma load_data_regions:
  assumes "load_data csv = Inr df"
  shows "map region df =
     map (\<lambda>r. replace region_mapping (region r)) (filter (\<lambda>r. region r \<noteq> yukji) csv)"
proof -
  from assms obtain df0 where all: "add_time_columns_all csv = Inr df0"
    and df: "df = map (\<lambda>r. r\<lparr>region := replace region_mapping (region r)\<rparr>)
                 (filter (\<lambda>r. \<not> (region r \<in> set [yukji])) df0)"
    by (auto simp: load_data_def split: sum.splits)
  from df have "map region df =
      map (\<lambda>r. replace region_mapping (region r)) (filter (\<lambda>r. region r \<noteq> yukji) df0)"
    by (simp add: comp_def)
  with add_time_columns_all_regions [OF all] show ?thesis by simp
qed

lemma replace_entry:
  assumes "(k, v) \<in> set region_mapping"
  shows "replace region_mapping k = v \<and> replace region_mapping v = v"
proof -
  from assms distinct_keys have "map_of region_mapping k = Some v" by simp
  then have 1: "replace region_mapping k = v" by (simp add: replace_def)
  from assms have "v \<in> set (map snd region_mapping)" by force
  with values_not_keys have "v \<notin> set (map fst region_mapping)" by blast
  then have "replace region_mapping v = v" by (rule replace_fixed)
  with 1 show ?thesis by simp
qed

subsection \<open>Options and selections\<close>

lemma selectbox_mem: "options \<noteq> [] \<Longrightarrow> selectbox options i \<in> set options"
  by (simp add: selectbox_def)

lemma set_day_options:
  "set (day_options df m) = insert Aggregate (Concrete ` day ` {r \<in> set df. month r = m})"
  by (auto simp: day_options_def)

lemma set_hour_options:
  "set (hour_options df m d) =
     insert Aggregate (Concrete ` hour ` {r \<in> set df. month r = m \<and> day r = d})"
  by (auto simp: hour_options_def)

lemma distinct_options:
  "distinct (day_options df m) \<and> distinct (hour_options df m d)"
  by (auto simp: day_options_def hour_options_def distinct_map inj_on_def)

section \<open>The loader: time columns\<close>

text \<open>
  C4. For every row of the loaded data frame, the trade date parses to a timestamp, the
  row's timestamp is that timestamp plus (trade hour index - 1) hours, and the month, day
  and hour columns are the month, day and hour of the row's timestamp.
\<close>

theorem timestamp_is_date_plus_hours:
  assumes "load_data csv = Inr df" and "r \<in> set df"
  shows "\<exists>t0. to_datetime (trade_date r) = Inr t0
    \<and> timestamp r = add_hours t0 (trade_hour r - 1)
    \<and> month r = dt_month (timestamp r) \<and> day r = dt_day (timestamp r)
    \<and> hour r = dt_hour (timestamp r)"
proof -
  from load_data_rows [OF assms] obtain r0 r1 where
    a: "add_time_columns r0 = Inr r1"
    and r: "r = r1\<lparr>region := replace region_mapping (region r1)\<rparr>"
    by blast
  from add_time_columns_Inr [OF a] r show ?thesis
    by (simp add: to_datetime_def)
qed

theorem timestamp_is_date_plus_hours_witness:
  "load_data example_csv = Inr example_df \<and> example_df ! 2 \<in> set example_df
   \<and> to_datetime (trade_date (example_df ! 2)) =
       Inr \<lparr>ts_date = \<lparr>d_year = 2024, d_month = 2, d_day = 29\<rparr>, ts_hour = 0\<rparr>
   \<and> trade_hour (example_df ! 2) = 24
   \<and> timestamp (example_df ! 2) =
       add_hours \<lparr>ts_date = \<lparr>d_year = 2024, d_month = 2, d_day = 29\<rparr>, ts_hour = 0\<rparr> 23
   \<and> timestamp (example_df ! 2) =
       \<lparr>ts_date = \<lparr>d_year = 2024, d_month = 2, d_day = 29\<rparr>, ts_hour = 23\<rparr>
   \<and> month (example_df ! 2) = 2 \<and> day (example_df ! 2) = 29 \<and> hour (example_df ! 2) = 23"
proof -
  have m: "example_df ! 2 \<in> set example_df" by (simp add: example_df_def)
  show ?thesis
    using timestamp_is_date_plus_hours [OF load_example m] load_example m
    by (simp add: example_df_def loader_defs)
qed

text \<open>
  C9. For every row of the loaded data frame whose trade hour index lies in 1..24, the
  hour column is the index minus one, so it lies in 0..23, and the month and day columns
  are the month and day of the trade date: adding 0 to 23 hours to midnight stays on the
  same date.
\<close>

theorem hour_zero_based:
  assumes "load_data csv = Inr df" and "r \<in> set df"
    and "1 \<le> trade_hour r" and "trade_hour r \<le> 24"
  shows "hour r = trade_hour r - 1 \<and> 0 \<le> hour r \<and> hour r \<le> 23
    \<and> month r = d_month (trade_date r) \<and> day r = d_day (trade_date r)"
proof -
  from load_data_rows [OF assms(1,2)] obtain r0 r1 where
    a: "add_time_columns r0 = Inr r1"
    and r: "r = r1\<lparr>region := replace region_mapping (region r1)\<rparr>"
    by blast
  from r assms(3,4) have h: "0 \<le> trade_hour r1 - 1" "trade_hour r1 - 1 < 24" by simp_all
  from add_time_columns_Inr [OF a] have
    "timestamp r1 = add_hours \<lparr>ts_date = trade_date r1, ts_hour = 0\<rparr> (trade_hour r1 - 1)"
    "month r1 = dt_month (timestamp r1)" "day r1 = dt_day (timestamp r1)"
    "hour r1 = dt_hour (timestamp r1)"
    by simp_all
  with add_hours_same_day [OF h] h r show ?thesis
    by (simp add: dt_month_def dt_day_def dt_hour_def)
qed

theorem hour_zero_based_witness:
  "load_data example_csv = Inr example_df \<and> example_df ! 2 \<in> set example_df
   \<and> trade_date (example_df ! 2) = \<lparr>d_year = 2024, d_month = 2, d_day = 29\<rparr>
   \<and> trade_hour (example_df ! 2) = 24
   \<and> hour (example_df ! 2) = 23 \<and> month (example_df ! 2) = 2 \<and> day (example_df ! 2) = 29"
proof -
  have m: "example_df ! 2 \<in> set example_df" by (simp add: example_df_def)
  have lo: "1 \<le> trade_hour (example_df ! 2)" by (simp add: example_df_def)
  have hi: "trade_hour (example_df ! 2) \<le> 24" by (simp add: example_df_def)
  show ?thesis
    using hour_zero_based [OF load_example m lo hi] load_example m
    by (simp add: example_df_def)
qed

section \<open>The loader: regions\<close>

text \<open>
  C6. No row of the loaded data frame has the sentinel region (U+C721 U+C9C0), however
  many such rows the file has.
\<close>

theorem sentinel_never_loaded:
  assumes "load_data csv = Inr df"
  shows "yukji \<notin> region ` set df"
proof
  assume "yukji \<in> region ` set df"
  then obtain r where m: "r \<in> set df" and y: "region r = yukji" by auto
  from load_data_rows [OF assms m] obtain r0 r1 where
    n: "region r1 \<noteq> yukji"
    and r: "r = r1\<lparr>region := replace region_mapping (region r1)\<rparr>"
    by blast
  have "replace region_mapping (region r1) \<noteq> yukji"
    using replace_cases [of region_mapping "region r1"] n yukji_not_value by metis
  with r y show False by simp
qed

theorem sentinel_never_loaded_witness:
  "load_data example_csv = Inr example_df \<and> yukji \<in> region ` set example_csv
   \<and> yukji \<notin> region ` set example_df"
proof -
  have "yukji \<in> region ` set example_csv" by (simp add: example_csv_def)
  with sentinel_never_loaded [OF load_example] load_example show ?thesis by simp
qed

text \<open>
  C5. When the load succeeds, no row of the loaded data frame has a key of
  \<open>region_mapping\<close> as its region: the regions of the loaded rows are the regions of
  the rows of the file outside the sentinel region, each replaced through the mapping.
  A key and its value are both replaced by the value, so their rows fall into one
  group. On the example, the short-form Seoul row of volume 10 and the full-form Seoul
  row of volume 5 give, for month 1, day 1, all hours and solar, one row of 15 for
  the full form of Seoul and 0 for the other region.
\<close>

theorem mapping_keys_never_loaded:
  "(load_data csv = Inr df \<longrightarrow>
      region ` set df \<inter> fst ` set region_mapping = {}
      \<and> map region df =
          map (\<lambda>r. replace region_mapping (region r)) (filter (\<lambda>r. region r \<noteq> yukji) csv))
   \<and> ((k, v) \<in> set region_mapping \<longrightarrow>
        replace region_mapping k = v \<and> replace region_mapping v = v)
   \<and> main example_csv example_picks =
       Inr \<lparr>month_selected = Concrete 1, day_selected = Concrete 1, hour_selected = Aggregate,
            source_selected = Concrete taeyanggwang,
            df_map = [(seoul_teukbyeolsi, Finite 15), (jeju_teukbyeoljachido, Finite 0)],
            df_anim = Some [(seoul_teukbyeolsi, 0, Finite 15)]\<rparr>"
proof (intro conjI impI)
  assume l: "load_data csv = Inr df"
  show "region ` set df \<inter> fst ` set region_mapping = {}"
  proof -
    have "region r \<notin> fst ` set region_mapping" if m: "r \<in> set df" for r
    proof -
      from load_data_rows [OF l m] obtain r0 r1 where
        r: "r = r1\<lparr>region := replace region_mapping (region r1)\<rparr>"
        by blast
      with replace_not_key [of "region r1"] show ?thesis by simp
    qed
    then show ?thesis by blast
  qed
  show "map region df =
      map (\<lambda>r. replace region_mapping (region r)) (filter (\<lambda>r. region r \<noteq> yukji) csv)"
    by (rule load_data_regions [OF l])
next
  assume e: "(k, v) \<in> set region_mapping"
  from replace_entry [OF e] show "replace region_mapping k = v" by (rule conjunct1)
  from replace_entry [OF e] show "replace region_mapping v = v" by (rule conjunct2)
next
  show "main example_csv example_picks =
       Inr \<lparr>month_selected = Concrete 1, day_selected = Concrete 1, hour_selected = Aggregate,
            source_selected = Concrete taeyanggwang,
            df_map = [(seoul_teukbyeolsi, Finite 15), (jeju_teukbyeoljachido, Finite 0)],
            df_anim = Some [(seoul_teukbyeolsi, 0, Finite 15)]\<rparr>"
    by (simp add: main_def load_example main_body_example)
qed

theorem mapping_keys_never_loaded_witness:
  "load_data example_csv = Inr example_df
   \<and> seoul_si \<in> region ` set example_csv
   \<and> region ` set example_df \<inter> fst ` set region_mapping = {}
   \<and> map region example_df = [seoul_teukbyeolsi, seoul_teukbyeolsi, jeju_teukbyeoljachido]
   \<and> (seoul_si, seoul_teukbyeolsi) \<in> set region_mapping
   \<and> replace region_mapping seoul_si = seoul_teukbyeolsi
   \<and> replace region_mapping seoul_teukbyeolsi = seoul_teukbyeolsi"
proof -
  have e: "(seoul_si, seoul_teukbyeolsi) \<in> set region_mapping"
    by (simp add: region_mapping_def)
  have c: "seoul_si \<in> region ` set example_csv" by (simp add: example_csv_def)
  have d: "map region example_df = [seoul_teukbyeolsi, seoul_teukbyeolsi, jeju_teukbyeoljachido]"
    by (simp add: example_df_def)
  from mapping_keys_never_loaded [of example_csv example_df seoul_si seoul_teukbyeolsi]
    load_example e c d
  show ?thesis by blast
qed

text \<open>
  C7 as stated (the table has exactly 11 entries) fails: the dictionary of lines 11 to 22
  has 10 entries.
\<close>

theorem region_mapping_eleven_counterexample: "length region_mapping \<noteq> 11"
  by (simp add: region_mapping_def)

text \<open>
  C7 (amended). The table \<open>region_mapping\<close> has exactly 10 entries, with 10 distinct
  short-form keys; among them the short form of Seoul maps to the full form of Seoul,
  and both U+C81C U+C8FC ("Jeju") and U+C81C U+C8FC U+B3C4 ("Jeju-do") map to the full
  form of Jeju.
\<close>

theorem region_mapping_ten_entries:
  "length region_mapping = 10 \<and> distinct (map fst region_mapping)
   \<and> map_of region_mapping seoul_si = Some seoul_teukbyeolsi
   \<and> map_of region_mapping jeju = Some jeju_teukbyeoljachido
   \<and> map_of region_mapping jeju_do = Some jeju_teukbyeoljachido
   \<and> seoul_si = [0xC11C, 0xC6B8, 0xC2DC]
   \<and> seoul_teukbyeolsi = [0xC11C, 0xC6B8, 0xD2B9, 0xBCC4, 0xC2DC]
   \<and> jeju = [0xC81C, 0xC8FC] \<and> jeju_do = [0xC81C, 0xC8FC, 0xB3C4]
   \<and> jeju_teukbyeoljachido = [0xC81C, 0xC8FC, 0xD2B9, 0xBCC4, 0xC790, 0xCE58, 0xB3C4]"
  using distinct_keys by (simp add: region_mapping_def region_names)

text \<open>
  C10. No value of \<open>region_mapping\<close> is one of its keys, and replacing a region name
  twice gives the same name as replacing it once.
\<close>

theorem replace_idempotent:
  "set (map snd region_mapping) \<inter> set (map fst region_mapping) = {}
   \<and> replace region_mapping (replace region_mapping v) = replace region_mapping v"
  using values_not_keys replace_idem by blast

theorem replace_idempotent_witness:
  "replace region_mapping (replace region_mapping seoul_si) = seoul_teukbyeolsi
   \<and> replace region_mapping seoul_si = seoul_teukbyeolsi"
  using replace_idempotent [of seoul_si]
  by (simp add: replace_def region_mapping_def)

section \<open>The filter cascade\<close>

text \<open>
  C8. The options of the day selector are the aggregate option and the distinct days of
  the rows of the data frame whose month is the selected month; the options of the hour
  selector are the aggregate option and the distinct hours of the rows of the selected
  month and day. Both lists depend on the data frame and the current upstream
  selections only, and the selection made is one of the current options. When the month
  selection is the aggregate one the day selection is the aggregate one, and when the
  month or the day selection is the aggregate one so is the hour selection, whatever the
  user picked. The selections of the script are made this way, and a run that ends
  without an exception shows them.
\<close>

theorem cascade_options:
  "set (day_options df m) = insert Aggregate (Concrete ` day ` {r \<in> set df. month r = m})
   \<and> set (hour_options df m d) =
       insert Aggregate (Concrete ` hour ` {r \<in> set df. month r = m \<and> day r = d})
   \<and> distinct (day_options df m) \<and> distinct (hour_options df m d)
   \<and> select_day df (Concrete m) i \<in> set (day_options df m)
   \<and> select_hour df (Concrete m) (Concrete d) j \<in> set (hour_options df m d)
   \<and> select_day df Aggregate i = Aggregate
   \<and> select_hour df Aggregate ds j = Aggregate
   \<and> select_hour df ms Aggregate j = Aggregate
   \<and> day_selected (select_filters df p) =
       select_day df (month_selected (select_filters df p)) (day_pick p)
   \<and> hour_selected (select_filters df p) =
       select_hour df (month_selected (select_filters df p))
         (day_selected (select_filters df p)) (hour_pick p)
   \<and> (main_body df p = Inr out \<longrightarrow>
        month_selected out = month_selected (select_filters df p)
        \<and> day_selected out = select_day df (month_selected out) (day_pick p)
        \<and> hour_selected out =
            select_hour df (month_selected out) (day_selected out) (hour_pick p))
   \<and> (df \<noteq> [] \<longrightarrow> (\<exists>out. main_body df p = Inr out))"
proof (intro conjI impI)
  show "set (day_options df m) = insert Aggregate (Concrete ` day ` {r \<in> set df. month r = m})"
    by (rule set_day_options)
  show "set (hour_options df m d) =
       insert Aggregate (Concrete ` hour ` {r \<in> set df. month r = m \<and> day r = d})"
    by (rule set_hour_options)
  show "distinct (day_options df m)" using distinct_options by blast
  show "distinct (hour_options df m d)" using distinct_options by blast
  have "day_options df m \<noteq> []" by (simp add: day_options_def)
  then show "select_day df (Concrete m) i \<in> set (day_options df m)"
    by (simp add: select_day_def selectbox_mem)
  have "hour_options df m d \<noteq> []" by (simp add: hour_options_def)
  then show "select_hour df (Concrete m) (Concrete d) j \<in> set (hour_options df m d)"
    by (simp add: select_hour_def selectbox_mem)
  show "select_day df Aggregate i = Aggregate" by (simp add: select_day_def)
  show "select_hour df Aggregate ds j = Aggregate" by (simp add: select_hour_def)
  show "select_hour df ms Aggregate j = Aggregate"
    by (simp add: select_hour_def split: selection.splits)
  show "day_selected (select_filters df p) =
       select_day df (month_selected (select_filters df p)) (day_pick p)"
    using select_filters_cascade by blast
  show "hour_selected (select_filters df p) =
       select_hour df (month_selected (select_filters df p))
         (day_selected (select_filters df p)) (hour_pick p)"
    using select_filters_cascade by blast
next
  assume r: "main_body df p = Inr out"
  show "month_selected out = month_selected (select_filters df p)"
    by (rule main_body_Inr(1) [OF r])
  show "day_selected out = select_day df (month_selected out) (day_pick p)"
    using main_body_Inr(1,2) [OF r] select_filters_cascade [of df p] by simp
  show "hour_selected out =
      select_hour df (month_selected out) (day_selected out) (hour_pick p)"
    using main_body_Inr(1,2,3) [OF r] select_filters_cascade [of df p] by simp
next
  assume "df \<noteq> []"
  then show "\<exists>out. main_body df p = Inr out" by (rule main_body_total)
qed

theorem cascade_options_witness:
  "day_options example_df 2 = [Aggregate, Concrete 29]
   \<and> set (day_options example_df 2) = {Aggregate, Concrete 29}
   \<and> hour_options example_df 2 29 = [Aggregate, Concrete 23]
   \<and> set (hour_options example_df 2 29) = {Aggregate, Concrete 23}
   \<and> select_day example_df (Concrete 2) 1 = Concrete 29
   \<and> select_day example_df Aggregate 1 = Aggregate
   \<and> select_hour example_df Aggregate (Concrete 29) 1 = Aggregate
   \<and> select_hour example_df (Concrete 2) Aggregate 1 = Aggregate
   \<and> example_df \<noteq> []
   \<and> main_body example_df empty_picks =
       Inr \<lparr>month_selected = Concrete 2, day_selected = Concrete 29,
            hour_selected = Aggregate, source_selected = Concrete taeyanggwang,
            df_map = [(seoul_teukbyeolsi, Finite 0), (jeju_teukbyeoljachido, Finite 0)],
            df_anim = Some []\<rparr>
   \<and> select_day example_df (Concrete 2) (day_pick empty_picks) = Concrete 29
   \<and> select_hour example_df (Concrete 2) (Concrete 29) (hour_pick empty_picks) = Aggregate"
proof -
  have d: "day_options example_df 2 = [Aggregate, Concrete 29]"
    by (simp add: day_options_def unique_def example_df_def)
  have h: "hour_options example_df 2 29 = [Aggregate, Concrete 23]"
    by (simp add: hour_options_def unique_def example_df_def)
  have s: "select_day example_df (Concrete 2) 1 = Concrete 29"
    by (simp add: select_day_def selectbox_def d)
  have n: "example_df \<noteq> []" by (simp add: example_df_def)
  note t = cascade_options [of example_df 2 29 1 1 "Concrete 29" "Concrete 2" empty_picks
      "\<lparr>month_selected = Concrete 2, day_selected = Concrete 29,
            hour_selected = Aggregate, source_selected = Concrete taeyanggwang,
            df_map = [(seoul_teukbyeolsi, Finite 0), (jeju_teukbyeoljachido, Finite 0)],
            df_anim = Some []\<rparr>"]
  have a: "select_day example_df Aggregate 1 = Aggregate"
    and b: "select_hour example_df Aggregate (Concrete 29) 1 = Aggregate"
    and c: "select_hour example_df (Concrete 2) Aggregate 1 = Aggregate"
    using t by blast+
  have e: "select_day example_df (Concrete 2) (day_pick empty_picks) = Concrete 29"
    by (simp add: select_day_def selectbox_def d empty_picks_def)
  have f: "select_hour example_df (Concrete 2) (Concrete 29) (hour_pick empty_picks)
        = Aggregate"
    by (simp add: select_hour_def selectbox_def h empty_picks_def)
  from a b c d h s n e f main_body_empty show ?thesis by simp
qed

section \<open>The heat map\<close>






section \<open>The animation\<close>




end
